theory Spec2Isabelle
  imports Main "HOL-Library.Word" "HOL-Library.Multiset"
begin

unbundle bit_operations_syntax

section \<open>Peers and the heap\<close>

text \<open>
  The peer table stores pointers (\<open>*Peer\<close>), and \<open>AddPeer\<close> mutates the peers it is
  handed (\<open>p.Stop()\<close>, \<open>peer.SetSeed(..)\<close>), so peers live in an explicit heap:
  a peer pointer is an address, the heap maps an address to the object it holds.
  Pointers are never nil in this model: every operation of the table calls a method on
  the pointer first. \<open>*nu.NetAddress\<close> is a pointer as well and is only ever used as a
  map key, so it is an address too.
\<close>

type_synonym peer_ref = nat
type_synonym addr_ref = nat

text \<open>
  Modelled from the spec: the type \<open>Peer\<close> is declared outside \<open>peer_table.go\<close>. The
  spec gives its attributes: a stable string identity, a network address, a
  directionality flag, a seed flag and a lifecycle state (running or stopped).
\<close>

record Peer =
  identity :: string
  netAddress :: addr_ref
  isOutbound :: bool
  isSeed :: bool
  stopped :: bool

type_synonym heap = "peer_ref \<Rightarrow> Peer"

definition ID :: "heap \<Rightarrow> peer_ref \<Rightarrow> string" where
  "ID h p = identity (h p)"

definition NetAddress :: "heap \<Rightarrow> peer_ref \<Rightarrow> addr_ref" where
  "NetAddress h p = netAddress (h p)"

definition IsOutbound :: "heap \<Rightarrow> peer_ref \<Rightarrow> bool" where
  "IsOutbound h p = isOutbound (h p)"

definition IsSeed :: "heap \<Rightarrow> peer_ref \<Rightarrow> bool" where
  "IsSeed h p = isSeed (h p)"

text \<open>Modelled from the spec: stopping a peer marks its connection stopped.\<close>

definition Stop :: "heap \<Rightarrow> peer_ref \<Rightarrow> heap" where
  "Stop h p = h(p := (h p)\<lparr>stopped := True\<rparr>)"

definition SetSeed :: "heap \<Rightarrow> peer_ref \<Rightarrow> bool \<Rightarrow> heap" where
  "SetSeed h p b = h(p := (h p)\<lparr>isSeed := b\<rparr>)"

section \<open>The peer table\<close>

text \<open>
  \<open>PeerTable\<close> of \<open>peer_table.go\<close>. The mutex serialises the operations; each
  operation below is one critical section.
\<close>

record PeerTable =
  peerMap :: "string \<rightharpoonup> peer_ref"
  peers :: "peer_ref list"
  addrMap :: "addr_ref \<rightharpoonup> peer_ref"

record PeerIDAddress =
  pia_ID :: string
  pia_Addr :: addr_ref

datatype panic =
    SliceBoundsOutOfRange
  | IndexOutOfRange
  | IntnNonPositive
  | NilDereference
  | UnknownMessage

definition CreatePeerTable :: PeerTable where
  "CreatePeerTable = \<lparr>peerMap = Map.empty, peers = [], addrMap = Map.empty\<rparr>"

subsection \<open>AddPeer\<close>

text \<open>
  The loop of \<open>AddPeer\<close> over \<open>pt.peers\<close>: at the first peer \<open>p\<close> with the new
  peer's identity it stops \<open>p\<close>, copies \<open>p\<close>'s seed flag onto the new peer when \<open>p\<close>
  is outbound, writes the new peer into the slot and breaks. The flags of \<open>p\<close> are read
  after \<open>p.Stop()\<close>, as in the source.
\<close>

fun replaceFirst :: "heap \<Rightarrow> peer_ref \<Rightarrow> peer_ref list \<Rightarrow> heap \<times> peer_ref list" where
  "replaceFirst h peer [] = (h, [])"
| "replaceFirst h peer (p # ps) =
     (if ID h p = ID h peer then
        (let h1 = Stop h p;
             h2 = (if IsOutbound h1 p then SetSeed h1 peer (IsSeed h1 p) else h1)
         in (h2, peer # ps))
      else (let (h', ps') = replaceFirst h peer ps in (h', p # ps')))"

definition AddPeer :: "heap \<Rightarrow> PeerTable \<Rightarrow> peer_ref \<Rightarrow> heap \<times> PeerTable \<times> bool" where
  "AddPeer h pt peer =
     (let (h', ps') =
            (if peerMap pt (ID h peer) \<noteq> None then replaceFirst h peer (peers pt)
             else (h, peers pt @ [peer]))
      in (h',
          \<lparr>peerMap = (peerMap pt)(ID h' peer \<mapsto> peer),
           peers = ps',
           addrMap = (addrMap pt)(NetAddress h' peer \<mapsto> peer)\<rparr>,
          True))"

subsection \<open>DeletePeer\<close>

text \<open>
  The loop of \<open>DeletePeer\<close> ranges over the slice header taken at loop entry: \<open>arr\<close>
  is the backing array up to that length, which the loop body shares and shifts in
  place, and \<open>len\<close> is the current length of \<open>pt.peers\<close>. Removing slot \<open>idx\<close>
  is \<open>append(pt.peers[:idx], pt.peers[idx+1:]...)\<close>: the second slice expression
  panics unless \<open>idx + 1 \<le> len\<close>; otherwise the elements \<open>idx+1 .. len-1\<close> move one
  slot down, the slots from \<open>len-1\<close> on keep what they held, and \<open>pt.peers\<close> gets
  shorter by one. Each iteration reads \<open>arr ! idx\<close> afresh.
\<close>

function deleteLoop ::
  "heap \<Rightarrow> string \<Rightarrow> nat \<Rightarrow> peer_ref list \<Rightarrow> nat \<Rightarrow> panic + peer_ref list" where
  "deleteLoop h pid idx arr len =
     (if idx < length arr then
        (if ID h (arr ! idx) = pid then
           (if idx + 1 \<le> len then
              deleteLoop h pid (idx + 1)
                (take idx arr @ drop (idx + 1) (take len arr) @ drop (len - 1) arr) (len - 1)
            else Inl SliceBoundsOutOfRange)
         else deleteLoop h pid (idx + 1) arr len)
      else Inr (take len arr))"
  by pat_completeness auto
termination
  by (relation "measure (\<lambda>(h, pid, idx, arr, len). length arr - idx)") auto

declare deleteLoop.simps [simp del]

definition DeletePeer :: "heap \<Rightarrow> PeerTable \<Rightarrow> string \<Rightarrow> panic + PeerTable" where
  "DeletePeer h pt pid =
     (case peerMap pt pid of
        None \<Rightarrow> Inr pt
      | Some peer \<Rightarrow>
          (case deleteLoop h pid 0 (peers pt) (length (peers pt)) of
             Inl e \<Rightarrow> Inl e
           | Inr ps' \<Rightarrow>
               Inr \<lparr>peerMap = (peerMap pt)(pid := None),
                    peers = ps',
                    addrMap = (addrMap pt)(NetAddress h peer := None)\<rparr>))"

subsection \<open>PurgeOldestPeer\<close>

text \<open>
  The scan of \<open>PurgeOldestPeer\<close>: \<open>peer\<close> starts nil and is overwritten at every
  non-seed peer of the sequence, front to back.
\<close>

fun scanNonSeed :: "heap \<Rightarrow> peer_ref list \<Rightarrow> peer_ref option \<Rightarrow> peer_ref option" where
  "scanNonSeed h [] peer = peer"
| "scanNonSeed h (pr # ps) peer =
     scanNonSeed h ps (if \<not> IsSeed h pr then Some pr else peer)"

text \<open>
  \<open>pt.peers[1:]\<close> is reached only with a peer read from \<open>pt.peers\<close>, so the slice is
  not empty there and the expression cannot panic; \<open>drop 1\<close> is that slice.
\<close>

definition PurgeOldestPeer :: "heap \<Rightarrow> PeerTable \<Rightarrow> PeerTable \<times> peer_ref option" where
  "PurgeOldestPeer h pt =
     (case scanNonSeed h (peers pt) None of
        None \<Rightarrow> (pt, None)
      | Some peer \<Rightarrow>
          (pt\<lparr>peerMap := (peerMap pt)(ID h peer := None), peers := drop 1 (peers pt)\<rparr>,
           Some peer))"

subsection \<open>Sequences of operations\<close>

datatype table_op = OpAddPeer peer_ref | OpDeletePeer string | OpPurgeOldestPeer

fun step :: "heap \<times> PeerTable \<Rightarrow> table_op \<Rightarrow> panic + heap \<times> PeerTable" where
  "step (h, pt) (OpAddPeer p) = (let (h', pt', ok) = AddPeer h pt p in Inr (h', pt'))"
| "step (h, pt) (OpDeletePeer pid) =
     (case DeletePeer h pt pid of Inl e \<Rightarrow> Inl e | Inr pt' \<Rightarrow> Inr (h, pt'))"
| "step (h, pt) OpPurgeOldestPeer = Inr (h, fst (PurgeOldestPeer h pt))"

fun run :: "heap \<times> PeerTable \<Rightarrow> table_op list \<Rightarrow> panic + heap \<times> PeerTable" where
  "run s [] = Inr s"
| "run s (x # xs) = (case step s x of Inl e \<Rightarrow> Inl e | Inr s' \<Rightarrow> run s' xs)"

subsection \<open>GetSelection\<close>

definition getSelectionPercent :: int where "getSelectionPercent = 23"
definition minGetSelection :: int where "minGetSelection = 32"
definition maxGetSelection :: int where "maxGetSelection = 250"

text \<open>
  Modelled from the spec: \<open>mm.MaxInt\<close> and \<open>mm.MinInt\<close> are declared in
  \<open>common/math\<close>; the spec reads them as the larger and the smaller of two integers.
\<close>

definition MaxInt :: "int \<Rightarrow> int \<Rightarrow> int" where
  "MaxInt a b = (if a > b then a else b)"

definition MinInt :: "int \<Rightarrow> int \<Rightarrow> int" where
  "MinInt a b = (if a < b then a else b)"

text \<open>
  Go's \<open>int\<close> on a 64-bit platform: a product wraps to the signed 64-bit range, and
  \<open>/\<close> truncates towards zero.
\<close>

definition go_int :: "int \<Rightarrow> int" where
  "go_int x = (x + 2 ^ 63) mod 2 ^ 64 - 2 ^ 63"

definition go_quot :: "int \<Rightarrow> int \<Rightarrow> int" where
  "go_quot a b = sgn a * sgn b * (\<bar>a\<bar> div \<bar>b\<bar>)"

definition numSelection :: "nat \<Rightarrow> int" where
  "numSelection n =
     MinInt maxGetSelection
       (MaxInt (MinInt minGetSelection (int n))
               (go_quot (go_int (int n * getSelectionPercent)) 100))"

text \<open>
  The shuffle loop on the copied slice. \<open>rand.Intn(k)\<close> panics when \<open>k \<le> 0\<close> and
  otherwise returns some number below \<open>k\<close>: \<open>rnd i\<close> is the raw draw of iteration
  \<open>i\<close>, reduced modulo \<open>k\<close>, so every sequence of results \<open>rand.Intn\<close> can give is
  the behaviour under some \<open>rnd\<close>. Both index expressions are bounds-checked as Go
  does it. The two assignments of the swap read both right-hand sides first.
\<close>

function shuffle :: "(nat \<Rightarrow> nat) \<Rightarrow> nat \<Rightarrow> int \<Rightarrow> 'a list \<Rightarrow> panic + 'a list" where
  "shuffle rnd i numPeers ps =
     (if int i < numPeers then
        (if int (length ps) - int i \<le> 0 then Inl IntnNonPositive
         else
           (let j = rnd i mod (length ps - i) + i in
            if i < length ps \<and> j < length ps
            then shuffle rnd (Suc i) numPeers (ps[i := ps ! j, j := ps ! i])
            else Inl IndexOutOfRange))
      else Inr ps)"
  by pat_completeness auto
termination
  by (relation "measure (\<lambda>(rnd, i, numPeers, ps). nat (numPeers - int i))") auto

declare shuffle.simps [simp del]

text \<open>
  \<open>GetSelection\<close> returns nil for an empty table. Otherwise it copies \<open>pt.peers\<close>
  (\<open>make\<close> gives the copy length and capacity \<open>len(pt.peers)\<close>), shuffles the
  first \<open>numPeers\<close> slots of the copy, slices \<open>peers[:numPeers]\<close> (a panic unless
  \<open>0 \<le> numPeers \<le> cap\<close>) and appends one pair per selected peer to the nil result,
  which therefore stays nil when nothing is selected. The table is returned as it was
  passed: the function writes to the copy only.
\<close>

definition GetSelection ::
  "(nat \<Rightarrow> nat) \<Rightarrow> heap \<Rightarrow> PeerTable \<Rightarrow> panic + PeerTable \<times> PeerIDAddress list option" where
  "GetSelection rnd h pt =
     (if length (peers pt) = 0 then Inr (pt, None)
      else
        (let copied = peers pt;
             numPeers = numSelection (length copied)
         in case shuffle rnd 0 numPeers copied of
              Inl e \<Rightarrow> Inl e
            | Inr shuffled \<Rightarrow>
                if 0 \<le> numPeers \<and> numPeers \<le> int (length shuffled) then
                  (let selected = take (nat numPeers) shuffled;
                       peerIDAddrs =
                         map (\<lambda>peer. \<lparr>pia_ID = ID h peer, pia_Addr = netAddress (h peer)\<rparr>)
                           selected
                   in Inr (pt, if peerIDAddrs = [] then None else Some peerIDAddrs))
                else Inl SliceBoundsOutOfRange))"

section \<open>The sync manager\<close>

text \<open>
  The second source file is the \<open>netsync\<close> package. Its collaborators are outside
  the file: the chain (\<open>FindBlock\<close>), the RLP codec, the dispatcher, the request
  manager and the consumer. Calls that only produce an effect are recorded, in order,
  in the list of effects a handler returns; calls that return a value are fields of
  \<open>collab\<close>. Debug-level log lines are left out of the effects.
\<close>

type_synonym byte = "8 word"
type_synonym bytes = "byte list"

subsection \<open>Hexadecimal strings\<close>

text \<open>
  \<open>hex.DecodeString\<close> and \<open>hex.EncodeToString\<close> of Go's \<open>encoding/hex\<close>: decoding
  accepts digits in either case and fails on any other character and on odd length;
  encoding writes lower-case digits.
\<close>

definition hextable :: string where
  "hextable = ''0123456789abcdef''"

definition fromHexChar :: "char \<Rightarrow> byte option" where
  "fromHexChar c =
     (let n = (of_char c :: nat) in
      if 48 \<le> n \<and> n \<le> 57 then Some (of_nat (n - 48))
      else if 97 \<le> n \<and> n \<le> 102 then Some (of_nat (n - 97 + 10))
      else if 65 \<le> n \<and> n \<le> 70 then Some (of_nat (n - 65 + 10))
      else None)"

fun DecodeString :: "string \<Rightarrow> bytes option" where
  "DecodeString [] = Some []"
| "DecodeString [p] = None"
| "DecodeString (p # q # rest) =
     (case fromHexChar p of
        None \<Rightarrow> None
      | Some a \<Rightarrow>
          (case fromHexChar q of
             None \<Rightarrow> None
           | Some b \<Rightarrow>
               (case DecodeString rest of
                  None \<Rightarrow> None
                | Some bs \<Rightarrow> Some ((push_bit 4 a OR b) # bs))))"

definition encodeByte :: "byte \<Rightarrow> string" where
  "encodeByte v = [hextable ! unat (drop_bit 4 v), hextable ! unat (v AND 15)]"

definition EncodeToString :: "bytes \<Rightarrow> string" where
  "EncodeToString bs = concat (map encodeByte bs)"

subsection \<open>Messages\<close>

datatype ChannelIDEnum =
    ChannelIDHeader
  | ChannelIDBlock
  | ChannelIDProposal
  | ChannelIDCC
  | ChannelIDVote
  | ChannelIDOther nat

record InventoryRequest =
  ireq_ChannelID :: ChannelIDEnum
  ireq_Start :: string
  ireq_End :: string

record InventoryResponse =
  iresp_ChannelID :: ChannelIDEnum
  iresp_Entries :: "string list"

record DataRequest =
  dreq_ChannelID :: ChannelIDEnum
  dreq_Entries :: "string list"

record DataResponse =
  dresp_ChannelID :: ChannelIDEnum
  dresp_Payload :: bytes

text \<open>
  \<open>message.Content\<close> is an \<open>interface{}\<close>: the type switch of \<open>processMessage\<close>
  knows four dynamic types; \<open>OtherContent\<close> stands for a value of any other type,
  named by a description.
\<close>

datatype Content =
    InvReq InventoryRequest
  | InvResp InventoryResponse
  | DataReq DataRequest
  | DataResp DataResponse
  | OtherContent string

record Message =
  msg_PeerID :: string
  msg_ChannelID :: ChannelIDEnum
  msg_Content :: Content

text \<open>
  Modelled from the spec: blocks, votes, commit certificates and proposals are declared
  in the \<open>core\<close> package. The source reads a block's \<open>Hash\<close> and \<open>Parent\<close>, a
  vote's \<open>Block\<close> (a pointer it tests for nil), a certificate's votes, and a
  proposal's \<open>CommitCertificate\<close> (tested for nil) and \<open>Block\<close> (a pointer); an
  extended block of the chain carries the block and the hashes of its children.
\<close>

record Block =
  Hash :: bytes
  Parent :: bytes

record ExtendedBlock =
  eb_Block :: Block
  Children :: "bytes list"

record Vote =
  vote_Block :: "Block option"
  vote_ID :: string

record CommitCertificate =
  cc_Votes :: "Vote list"

record Proposal =
  prop_Block :: "Block option"
  prop_CommitCertificate :: "CommitCertificate option"

datatype SinkMessage = SinkVote Vote | SinkBlock Block

datatype effect =
    LogError string
  | LogPanic string
  | SendInventory "string list" InventoryResponse
  | SendData "string list" DataResponse
  | AddHash bytes "string list"
  | AddBlock Block
  | AddMessage SinkMessage

text \<open>
  \<open>MaxInventorySize\<close> is a constant of the \<open>dispatcher\<close> package whose value is not
  in the source file, so it is a parameter.
\<close>

record collab =
  FindBlock :: "bytes \<Rightarrow> ExtendedBlock option"
  rlpEncodeBlock :: "Block \<Rightarrow> bytes option"
  rlpDecodeBlock :: "bytes \<Rightarrow> Block option"
  rlpDecodeVote :: "bytes \<Rightarrow> Vote option"
  rlpDecodeProposal :: "bytes \<Rightarrow> Proposal option"
  MaxInventorySize :: nat

subsection \<open>handleInvRequest\<close>

text \<open>
  The chain walk. The first argument counts the iterations the loop may still make
  (\<open>dispatcher.MaxInventorySize - i\<close>). Each iteration appends the current hash, looks
  the block up (a failure aborts the request with an error log), stops at a block
  without children, and otherwise moves to the first child; when that child is the end
  hash, the end hash is appended as well and the walk stops. The check of \<open>err\<close> after
  the move to the child can never fire: \<open>err\<close> is nil there.
\<close>

fun invWalk ::
  "collab \<Rightarrow> nat \<Rightarrow> bytes \<Rightarrow> bytes \<Rightarrow> string list \<Rightarrow> string + string list" where
  "invWalk env 0 cur end blocks = Inr blocks"
| "invWalk env (Suc k) cur end blocks =
     (let blocks1 = blocks @ [EncodeToString cur] in
      case FindBlock env cur of
        None \<Rightarrow> Inl ''Failed to find block with given hash''
      | Some block \<Rightarrow>
          (case Children block of
             [] \<Rightarrow> Inr blocks1
           | child # _ \<Rightarrow>
               if child = end then Inr (blocks1 @ [EncodeToString end])
               else invWalk env k child end blocks1))"

definition handleInvRequest :: "collab \<Rightarrow> string \<Rightarrow> InventoryRequest \<Rightarrow> effect list" where
  "handleInvRequest env peerID req =
     (case ireq_ChannelID req of
        ChannelIDBlock \<Rightarrow>
          if ireq_Start req = [] then [LogError ''No start hash is specified in InvRequest'']
          else
            (case DecodeString (ireq_Start req) of
               None \<Rightarrow> [LogError ''Failed to decode start in InvRequest'']
             | Some cur \<Rightarrow>
                 (case DecodeString (ireq_End req) of
                    None \<Rightarrow> [LogError ''Failed to decode end in InvRequest'']
                  | Some end \<Rightarrow>
                      (case invWalk env (MaxInventorySize env) cur end [] of
                         Inl err \<Rightarrow> [LogError err]
                       | Inr blocks \<Rightarrow>
                           [SendInventory [peerID]
                              \<lparr>iresp_ChannelID = ChannelIDBlock, iresp_Entries = blocks\<rparr>])))
      | _ \<Rightarrow> [LogError ''Unsupported channelID in received InvRequest''])"

subsection \<open>handleInvResponse\<close>

fun invResponseLoop :: "string \<Rightarrow> string list \<Rightarrow> effect list" where
  "invResponseLoop peerID [] = []"
| "invResponseLoop peerID (hashStr # rest) =
     (case DecodeString hashStr of
        None \<Rightarrow> [LogError ''Failed to parse hash string in InvResponse'']
      | Some hash \<Rightarrow> AddHash hash [peerID] # invResponseLoop peerID rest)"

definition handleInvResponse :: "string \<Rightarrow> InventoryResponse \<Rightarrow> effect list" where
  "handleInvResponse peerID resp =
     (case iresp_ChannelID resp of
        ChannelIDBlock \<Rightarrow> invResponseLoop peerID (iresp_Entries resp)
      | _ \<Rightarrow> [LogError ''Unsupported channelID in received InvRequest''])"

subsection \<open>handleDataRequest\<close>

text \<open>
  The body of the loop of \<open>handleDataRequest\<close> for one hash string: the error it logs
  before it returns, or the data response it sends.
\<close>

definition serveHash :: "collab \<Rightarrow> string \<Rightarrow> string + DataResponse" where
  "serveHash env hashStr =
     (case DecodeString hashStr of
        None \<Rightarrow> Inl ''Failed to parse hash string in DataRequest''
      | Some hash \<Rightarrow>
          (case FindBlock env hash of
             None \<Rightarrow> Inl ''Failed to find hash string locally''
           | Some block \<Rightarrow>
               (case rlpEncodeBlock env (eb_Block block) of
                  None \<Rightarrow> Inl ''Failed to encode block''
                | Some payload \<Rightarrow>
                    Inr \<lparr>dresp_ChannelID = ChannelIDBlock, dresp_Payload = payload\<rparr>)))"

text \<open>Each of the three failures ends in \<open>return\<close>, which leaves the loop and the handler.\<close>

fun dataRequestLoop :: "collab \<Rightarrow> string \<Rightarrow> string list \<Rightarrow> effect list" where
  "dataRequestLoop env peerID [] = []"
| "dataRequestLoop env peerID (hashStr # rest) =
     (case serveHash env hashStr of
        Inl err \<Rightarrow> [LogError err]
      | Inr data \<Rightarrow> SendData [peerID] data # dataRequestLoop env peerID rest)"

definition handleDataRequest :: "collab \<Rightarrow> string \<Rightarrow> DataRequest \<Rightarrow> effect list" where
  "handleDataRequest env peerID data =
     (case dreq_ChannelID data of
        ChannelIDBlock \<Rightarrow> dataRequestLoop env peerID (dreq_Entries data)
      | _ \<Rightarrow> [LogError ''Unsupported channelID in received DataRequest''])"

subsection \<open>Content handlers\<close>

text \<open>
  A handler that can panic returns the effects it had until then and the panic.
  \<open>handleBlock\<close> reads \<open>block.Hash\<close> and \<open>block.Parent\<close> for its log line before
  anything else, which dereferences the pointer.
\<close>

definition handleBlock :: "Block option \<Rightarrow> effect list \<times> panic option" where
  "handleBlock block =
     (case block of
        None \<Rightarrow> ([], Some NilDereference)
      | Some b \<Rightarrow> ([AddBlock b], None))"

text \<open>
  \<open>handleCC\<close> hands the consumer the address of its loop variable at every vote;
  the effect records the vote the variable holds at the call.
\<close>

definition handleCC :: "CommitCertificate \<Rightarrow> effect list" where
  "handleCC cc = map (\<lambda>vote. AddMessage (SinkVote vote)) (cc_Votes cc)"

definition handleProposal :: "Proposal \<Rightarrow> effect list \<times> panic option" where
  "handleProposal p =
     (let effs = (case prop_CommitCertificate p of None \<Rightarrow> [] | Some cc \<Rightarrow> handleCC cc);
          (effs', r) = handleBlock (prop_Block p)
      in (effs @ effs', r))"

definition handleVote :: "Vote \<Rightarrow> effect list" where
  "handleVote vote =
     (case vote_Block vote of
        None \<Rightarrow> []
      | Some b \<Rightarrow> [AddHash (Hash b) []])
     @ [AddMessage (SinkVote vote)]"

definition handleDataResponse ::
  "collab \<Rightarrow> string \<Rightarrow> DataResponse \<Rightarrow> effect list \<times> panic option" where
  "handleDataResponse env peerID data =
     (case dresp_ChannelID data of
        ChannelIDBlock \<Rightarrow>
          (case rlpDecodeBlock env (dresp_Payload data) of
             None \<Rightarrow> ([LogError ''Failed to decode DataResponse payload''], None)
           | Some block \<Rightarrow> handleBlock (Some block))
      | ChannelIDVote \<Rightarrow>
          (case rlpDecodeVote env (dresp_Payload data) of
             None \<Rightarrow> ([LogError ''Failed to decode DataResponse payload''], None)
           | Some vote \<Rightarrow> (handleVote vote, None))
      | ChannelIDProposal \<Rightarrow>
          (case rlpDecodeProposal env (dresp_Payload data) of
             None \<Rightarrow> ([LogError ''Failed to decode DataResponse payload''], None)
           | Some proposal \<Rightarrow> handleProposal proposal)
      | _ \<Rightarrow> ([LogError ''Unsupported channelID in received DataResponse''], None))"

subsection \<open>processMessage\<close>

text \<open>
  The type switch. The default branch logs at panic level, which panics after writing
  the line.
\<close>

definition processMessage :: "collab \<Rightarrow> Message \<Rightarrow> effect list \<times> panic option" where
  "processMessage env message =
     (case msg_Content message of
        InvReq content \<Rightarrow> (handleInvRequest env (msg_PeerID message) content, None)
      | InvResp content \<Rightarrow> (handleInvResponse (msg_PeerID message) content, None)
      | DataReq content \<Rightarrow> (handleDataRequest env (msg_PeerID message) content, None)
      | DataResp content \<Rightarrow> handleDataResponse env (msg_PeerID message) content
      | OtherContent _ \<Rightarrow> ([LogPanic ''Received unknown message''], Some UnknownMessage))"

section \<open>Concrete states used in the evaluations\<close>

definition mkPeer :: "string \<Rightarrow> addr_ref \<Rightarrow> bool \<Rightarrow> bool \<Rightarrow> Peer" where
  "mkPeer i a ob sd =
     \<lparr>identity = i, netAddress = a, isOutbound = ob, isSeed = sd, stopped = False\<rparr>"

text \<open>
  A heap with an outbound seed peer \<open>0\<close> of identity \<open>a\<close>, an inbound peer \<open>1\<close> of
  identity \<open>b\<close> and an inbound peer \<open>2\<close> that has identity \<open>a\<close> again.
\<close>

definition heap0 :: heap where
  "heap0 = (\<lambda>_. mkPeer ''z'' 99 False False)
     (0 := mkPeer ''a'' 10 True True,
      1 := mkPeer ''b'' 11 False False,
      2 := mkPeer ''a'' 12 False False)"

definition table_ab :: PeerTable where
  "table_ab =
     \<lparr>peerMap = [''a'' \<mapsto> 0, ''b'' \<mapsto> 1], peers = [0, 1], addrMap = [10 \<mapsto> 0, 11 \<mapsto> 1]\<rparr>"

definition table_purged :: PeerTable where
  "table_purged = fst (PurgeOldestPeer heap0 table_ab)"

definition table_stale :: PeerTable where
  "table_stale =
     \<lparr>peerMap = [''b'' \<mapsto> 1](''b'' := None), peers = [], addrMap = [11 \<mapsto> 1]\<rparr>"

text \<open>A table whose ordered sequence holds the peers \<open>0, \<dots>, n - 1\<close>.\<close>

definition table_upto :: "nat \<Rightarrow> PeerTable" where
  "table_upto n = \<lparr>peerMap = Map.empty, peers = [0..<n], addrMap = Map.empty\<rparr>"

text \<open>The pair \<open>GetSelection\<close> builds for a selected peer.\<close>

definition pairOf :: "heap \<Rightarrow> peer_ref \<Rightarrow> PeerIDAddress" where
  "pairOf h peer = \<lparr>pia_ID = ID h peer, pia_Addr = netAddress (h peer)\<rparr>"

text \<open>Blocks, votes and collaborators for the evaluations of the sync manager.\<close>

definition mkBlock :: "bytes \<Rightarrow> Block" where
  "mkBlock h = \<lparr>Hash = h, Parent = []\<rparr>"

definition mkVote :: "bytes \<Rightarrow> Vote" where
  "mkVote bs = \<lparr>vote_Block = (if bs = [] then None else Some (mkBlock bs)), vote_ID = ''v''\<rparr>"

text \<open>A chain of three blocks: \<open>01\<close> has the child \<open>02\<close>, \<open>02\<close> the child \<open>03\<close>.\<close>

definition blk :: "bytes \<Rightarrow> bytes list \<Rightarrow> ExtendedBlock" where
  "blk h cs = \<lparr>eb_Block = \<lparr>Hash = h, Parent = []\<rparr>, Children = cs\<rparr>"

definition chain3 :: "bytes \<Rightarrow> ExtendedBlock option" where
  "chain3 h = (if h = [1] then Some (blk [1] [[2]])
               else if h = [2] then Some (blk [2] [[3]])
               else if h = [3] then Some (blk [3] [])
               else None)"

definition envChain3 :: "nat \<Rightarrow> collab" where
  "envChain3 m =
     \<lparr>FindBlock = chain3,
      rlpEncodeBlock = (\<lambda>b. Some (Hash b)),
      rlpDecodeBlock = (\<lambda>bs. if bs = [] then None else Some (mkBlock bs)),
      rlpDecodeVote = (\<lambda>bs. if bs = [255] then None else Some (mkVote bs)),
      rlpDecodeProposal = (\<lambda>bs. if bs = [] then None
         else Some \<lparr>prop_Block = (if bs = [0] then None else Some (mkBlock bs)),
                    prop_CommitCertificate = None\<rparr>),
      MaxInventorySize = m\<rparr>"

text \<open>
  A chain without end: the block whose hash is \<open>n\<close> zero bytes has one child, the
  block of \<open>n + 1\<close> zero bytes. \<open>reqZeros m\<close> asks for the range from the hash of
  one zero byte to the hash of \<open>m + 1\<close> zero bytes.
\<close>

definition chainZeros :: "bytes \<Rightarrow> ExtendedBlock option" where
  "chainZeros h = Some \<lparr>eb_Block = \<lparr>Hash = h, Parent = butlast h\<rparr>, Children = [h @ [0]]\<rparr>"

definition envZeros :: "nat \<Rightarrow> collab" where
  "envZeros m =
     \<lparr>FindBlock = chainZeros,
      rlpEncodeBlock = (\<lambda>b. Some (Hash b)),
      rlpDecodeBlock = (\<lambda>bs. None),
      rlpDecodeVote = (\<lambda>bs. None),
      rlpDecodeProposal = (\<lambda>bs. None),
      MaxInventorySize = m\<rparr>"

definition reqZeros :: "nat \<Rightarrow> InventoryRequest" where
  "reqZeros m =
     \<lparr>ireq_ChannelID = ChannelIDBlock,
      ireq_Start = EncodeToString [0],
      ireq_End = EncodeToString (replicate (Suc m) 0)\<rparr>"

definition msgOf :: "Content \<Rightarrow> Message" where
  "msgOf c = \<lparr>msg_PeerID = ''p'', msg_ChannelID = ChannelIDBlock, msg_Content = c\<rparr>"

text \<open>The heap after \<open>AddPeer\<close> has replaced \<open>old\<close> by \<open>peer\<close>.\<close>

definition replaced :: "heap \<Rightarrow> peer_ref \<Rightarrow> peer_ref \<Rightarrow> heap" where
  "replaced h old peer =
     (if IsOutbound h old then SetSeed (Stop h old) peer (IsSeed h old) else Stop h old)"

text \<open>
  The invariant of the spec's data model: every peer of the ordered sequence is the
  entry of its identity and of its address, and every entry of either map is in the
  sequence.
\<close>

definition views_consistent :: "heap \<Rightarrow> PeerTable \<Rightarrow> bool" where
  "views_consistent h pt \<longleftrightarrow>
     (\<forall>p \<in> set (peers pt).
        peerMap pt (ID h p) = Some p \<and> addrMap pt (NetAddress h p) = Some p)
     \<and> ran (peerMap pt) \<subseteq> set (peers pt)
     \<and> ran (addrMap pt) \<subseteq> set (peers pt)"

section \<open>Properties of the peer table\<close>

lemmas heap0_simps = heap0_def mkPeer_def ID_def NetAddress_def IsSeed_def IsOutbound_def
  Stop_def SetSeed_def

subsection \<open>Heap accessors\<close>

lemma ID_Stop [simp]: "ID (Stop h p) q = ID h q"
  by (simp add: ID_def Stop_def)

lemma ID_SetSeed [simp]: "ID (SetSeed h p b) q = ID h q"
  by (simp add: ID_def SetSeed_def)

lemma NetAddress_Stop [simp]: "NetAddress (Stop h p) q = NetAddress h q"
  by (simp add: NetAddress_def Stop_def)

lemma NetAddress_SetSeed [simp]: "NetAddress (SetSeed h p b) q = NetAddress h q"
  by (simp add: NetAddress_def SetSeed_def)

subsection \<open>AddPeer\<close>

lemma replaceFirst_found:
  "find (\<lambda>p. ID h p = ID h peer) ps = Some old \<Longrightarrow>
   replaceFirst h peer ps =
     (replaced h old peer, ps[length (takeWhile (\<lambda>p. ID h p \<noteq> ID h peer) ps) := peer])"
  by (induction ps) (auto simp: replaced_def IsOutbound_def IsSeed_def Stop_def split: if_splits)

lemma replaceFirst_absent:
  "find (\<lambda>p. ID h p = ID h peer) ps = None \<Longrightarrow> replaceFirst h peer ps = (h, ps)"
  by (induction ps) (auto split: if_splits)

lemma find_slot:
  "find P xs = Some old \<Longrightarrow>
   length (takeWhile (\<lambda>p. \<not> P p) xs) < length xs \<and> xs ! length (takeWhile (\<lambda>p. \<not> P p) xs) = old"
  by (induction xs) (auto split: if_splits)

lemma table_ab_reachable:
  "run (heap0, CreatePeerTable) [OpAddPeer 0, OpAddPeer 1] = Inr (heap0, table_ab)"
  by (simp add: AddPeer_def CreatePeerTable_def table_ab_def heap0_simps)

lemma table_purged_reachable:
  "run (heap0, CreatePeerTable) [OpAddPeer 0, OpAddPeer 1, OpPurgeOldestPeer]
     = Inr (heap0, table_purged)"
  by (simp add: AddPeer_def CreatePeerTable_def table_ab_def table_purged_def heap0_simps)

text \<open>
  What \<open>AddPeer\<close> does on a table whose identity map and ordered sequence agree on
  the identity of \<open>peer\<close>. When the identity is in the identity map and \<open>old\<close> is
  the first peer of the sequence that carries it, \<open>AddPeer\<close> stops \<open>old\<close>, gives
  \<open>peer\<close> the seed flag of \<open>old\<close> exactly when \<open>old\<close> is outbound (and leaves the
  flag of \<open>peer\<close> as it was otherwise), writes \<open>peer\<close> into the slot of \<open>old\<close>,
  so the sequence keeps its length, touches no other peer, and returns true. When the
  identity is not in the identity map, the code appends \<open>peer\<close> without looking at
  the sequence, changes no peer and returns true.
\<close>

lemma AddPeer_replaces_or_appends:
  "(peerMap pt (ID h peer) \<noteq> None \<and> find (\<lambda>p. ID h p = ID h peer) (peers pt) = Some old \<longrightarrow>
      AddPeer h pt peer =
        (replaced h old peer,
         \<lparr>peerMap = (peerMap pt)(ID h peer \<mapsto> peer),
          peers = (peers pt)[length (takeWhile (\<lambda>p. ID h p \<noteq> ID h peer) (peers pt)) := peer],
          addrMap = (addrMap pt)(NetAddress h peer \<mapsto> peer)\<rparr>,
         True)
      \<and> length (takeWhile (\<lambda>p. ID h p \<noteq> ID h peer) (peers pt)) < length (peers pt)
      \<and> peers pt ! length (takeWhile (\<lambda>p. ID h p \<noteq> ID h peer) (peers pt)) = old
      \<and> stopped (replaced h old peer old)
      \<and> isSeed (replaced h old peer peer)
           = (if isOutbound (h old) then isSeed (h old) else isSeed (h peer))
      \<and> (\<forall>q. q \<noteq> old \<and> q \<noteq> peer \<longrightarrow> replaced h old peer q = h q))
   \<and> (peerMap pt (ID h peer) = None \<longrightarrow>
      AddPeer h pt peer =
        (h,
         \<lparr>peerMap = (peerMap pt)(ID h peer \<mapsto> peer),
          peers = peers pt @ [peer],
          addrMap = (addrMap pt)(NetAddress h peer \<mapsto> peer)\<rparr>,
         True))"
proof (intro conjI impI)
  assume a: "peerMap pt (ID h peer) \<noteq> None \<and> find (\<lambda>p. ID h p = ID h peer) (peers pt) = Some old"
  let ?i = "length (takeWhile (\<lambda>p. ID h p \<noteq> ID h peer) (peers pt))"
  from a have f: "find (\<lambda>p. ID h p = ID h peer) (peers pt) = Some old" by simp
  have id: "ID (replaced h old peer) peer = ID h peer"
    and na: "NetAddress (replaced h old peer) peer = NetAddress h peer"
    by (simp_all add: replaced_def)
  show "AddPeer h pt peer =
        (replaced h old peer,
         \<lparr>peerMap = (peerMap pt)(ID h peer \<mapsto> peer),
          peers = (peers pt)[?i := peer],
          addrMap = (addrMap pt)(NetAddress h peer \<mapsto> peer)\<rparr>,
         True)"
    using a by (simp add: AddPeer_def replaceFirst_found [OF f] id na)
  from find_slot [OF f] show "?i < length (peers pt)" by simp
  from find_slot [OF f] show "peers pt ! ?i = old" by simp
  show "stopped (replaced h old peer old)"
    by (simp add: replaced_def SetSeed_def Stop_def)
  show "isSeed (replaced h old peer peer)
           = (if isOutbound (h old) then isSeed (h old) else isSeed (h peer))"
    by (simp add: replaced_def SetSeed_def Stop_def IsOutbound_def IsSeed_def)
  show "\<forall>q. q \<noteq> old \<and> q \<noteq> peer \<longrightarrow> replaced h old peer q = h q"
    by (simp add: replaced_def SetSeed_def Stop_def)
next
  assume "peerMap pt (ID h peer) = None"
  then show "AddPeer h pt peer =
        (h,
         \<lparr>peerMap = (peerMap pt)(ID h peer \<mapsto> peer),
          peers = peers pt @ [peer],
          addrMap = (addrMap pt)(NetAddress h peer \<mapsto> peer)\<rparr>,
         True)"
    by (simp add: AddPeer_def)
qed

text \<open>
  The scenario of the spec: the inbound peer \<open>2\<close> arrives with the identity of the
  outbound seed peer \<open>0\<close>.
\<close>

lemma AddPeer_replaces_outbound_seed:
  "peerMap table_ab (ID heap0 2) \<noteq> None
   \<and> find (\<lambda>p. ID heap0 p = ID heap0 2) (peers table_ab) = Some 0
   \<and> AddPeer heap0 table_ab 2 =
        (replaced heap0 0 2,
         \<lparr>peerMap = [''a'' \<mapsto> 2, ''b'' \<mapsto> 1], peers = [2, 1],
          addrMap = [10 \<mapsto> 0, 11 \<mapsto> 1, 12 \<mapsto> 2]\<rparr>,
         True)
   \<and> stopped (replaced heap0 0 2 0)
   \<and> isSeed (replaced heap0 0 2 2) \<and> \<not> isSeed (heap0 2)"
  using AddPeer_replaces_or_appends [of table_ab heap0 2 0]
  by (simp add: table_ab_def heap0_simps fun_upd_twist)

text \<open>
  C2. \<open>AddPeer\<close> of a peer whose identity already exists in the table does not
  always stop the old peer and take its slot. After \<open>AddPeer 0\<close>, \<open>AddPeer 1\<close> and
  \<open>PurgeOldestPeer\<close> the identity \<open>a\<close> of peer \<open>0\<close> is still in the identity
  map, but the sequence holds peer \<open>1\<close> only. \<open>AddPeer 2\<close> with identity \<open>a\<close>
  takes the branch of an existing identity and finds no slot: peer \<open>0\<close> is not
  stopped, the sequence is unchanged, and the new peer is in both maps but in no slot
  of the sequence, while \<open>AddPeer\<close> returns true.
\<close>

theorem C2_identity_only_in_map:
  "run (heap0, CreatePeerTable) [OpAddPeer 0, OpAddPeer 1, OpPurgeOldestPeer]
     = Inr (heap0, table_purged)
   \<and> peerMap table_purged (ID heap0 2) = Some 0
   \<and> peers table_purged = [1]
   \<and> \<not> stopped (fst (AddPeer heap0 table_purged 2) 0)
   \<and> peers (fst (snd (AddPeer heap0 table_purged 2))) = [1]
   \<and> peerMap (fst (snd (AddPeer heap0 table_purged 2))) ''a'' = Some 2
   \<and> addrMap (fst (snd (AddPeer heap0 table_purged 2))) 12 = Some 2
   \<and> snd (snd (AddPeer heap0 table_purged 2))"
proof -
  have "run (heap0, CreatePeerTable) [OpAddPeer 0, OpAddPeer 1, OpPurgeOldestPeer]
     = Inr (heap0, table_purged)"
    by (simp add: AddPeer_def CreatePeerTable_def table_ab_def table_purged_def heap0_simps)
  moreover have "peerMap table_purged (ID heap0 2) = Some 0
   \<and> peers table_purged = [1]
   \<and> \<not> stopped (fst (AddPeer heap0 table_purged 2) 0)
   \<and> peers (fst (snd (AddPeer heap0 table_purged 2))) = [1]
   \<and> peerMap (fst (snd (AddPeer heap0 table_purged 2))) ''a'' = Some 2
   \<and> addrMap (fst (snd (AddPeer heap0 table_purged 2))) 12 = Some 2
   \<and> snd (snd (AddPeer heap0 table_purged 2))"
    by (simp add: AddPeer_def PurgeOldestPeer_def table_purged_def table_ab_def heap0_simps)
  ultimately show ?thesis by simp
qed

text \<open>
  On the same table the branch of a new identity appends a peer the sequence already
  holds: the identity \<open>b\<close> of peer \<open>1\<close> is gone from the identity map, so
  \<open>AddPeer 1\<close> appends it a second time and stops nothing.
\<close>

lemma AddPeer_appends_duplicate:
  "peerMap table_purged (ID heap0 1) = None
   \<and> peers (fst (snd (AddPeer heap0 table_purged 1))) = [1, 1]
   \<and> \<not> stopped (fst (AddPeer heap0 table_purged 1) 1)"
  by (simp add: AddPeer_def PurgeOldestPeer_def table_purged_def table_ab_def heap0_simps)

subsection \<open>PurgeOldestPeer\<close>

lemma scanNonSeed_filter:
  "scanNonSeed h ps acc =
     (if filter (\<lambda>p. \<not> IsSeed h p) ps = [] then acc
      else Some (last (filter (\<lambda>p. \<not> IsSeed h p) ps)))"
  by (induction ps arbitrary: acc) auto

text \<open>
  C3. When the ordered sequence holds a non-seed peer, \<open>PurgeOldestPeer\<close> returns the
  last non-seed peer of the sequence, removes the entry of that peer's identity from the
  identity map and drops the first element of the sequence; the address map is left as
  it is. When every peer of the sequence is a seed, or the sequence is empty, it
  returns nil and changes nothing.
\<close>

theorem C3_PurgeOldestPeer: "(if \<exists>p \<in> set (peers pt). \<not> IsSeed h p
     then PurgeOldestPeer h pt =
            (pt\<lparr>peerMap := (peerMap pt)(ID h (last (filter (\<lambda>p. \<not> IsSeed h p) (peers pt))) := None),
                peers := tl (peers pt)\<rparr>,
             Some (last (filter (\<lambda>p. \<not> IsSeed h p) (peers pt))))
     else PurgeOldestPeer h pt = (pt, None))"
  by (auto simp: PurgeOldestPeer_def scanNonSeed_filter filter_empty_conv drop_Suc)

text \<open>
  In \<open>table_ab\<close> the peer returned and removed from the identity map is peer \<open>1\<close>,
  while the slot dropped from the sequence is the one of peer \<open>0\<close>. The empty table
  gives nil.
\<close>

theorem C3_PurgeOldestPeer_witness:
  "(\<exists>p \<in> set (peers table_ab). \<not> IsSeed heap0 p)
   \<and> PurgeOldestPeer heap0 table_ab =
        (\<lparr>peerMap = [''a'' \<mapsto> 0, ''b'' \<mapsto> 1](''b'' := None), peers = [1],
          addrMap = [10 \<mapsto> 0, 11 \<mapsto> 1]\<rparr>, Some 1)
   \<and> hd (peers table_ab) = 0
   \<and> \<not> (\<exists>p \<in> set (peers CreatePeerTable). \<not> IsSeed heap0 p)
   \<and> PurgeOldestPeer heap0 CreatePeerTable = (CreatePeerTable, None)"
  using C3_PurgeOldestPeer [of table_ab heap0] C3_PurgeOldestPeer [of CreatePeerTable heap0]
  by (simp add: table_ab_def CreatePeerTable_def heap0_simps)

subsection \<open>The three views\<close>

text \<open>
  C1. The invariant does not survive \<open>PurgeOldestPeer\<close>: from the empty table,
  adding the non-seed peer \<open>1\<close> and purging leaves the sequence and the identity map
  empty while the address map still holds peer \<open>1\<close> under its address \<open>11\<close>.
\<close>

theorem C1_purge_leaves_stale_address:
  "run (heap0, CreatePeerTable) [OpAddPeer 1, OpPurgeOldestPeer] = Inr (heap0, table_stale)
   \<and> peers table_stale = [] \<and> peerMap table_stale ''b'' = None
   \<and> addrMap table_stale 11 = Some 1"
  by (simp add: AddPeer_def PurgeOldestPeer_def CreatePeerTable_def table_stale_def heap0_simps)

lemma table_stale_inconsistent: "\<not> views_consistent heap0 table_stale"
  by (simp add: views_consistent_def table_stale_def ran_def)

text \<open>
  \<open>AddPeer\<close> alone breaks the invariant as well: replacing peer \<open>0\<close> by peer
  \<open>2\<close>, which has the same identity and another address, leaves the entry of the
  old address in the address map.
\<close>

lemma AddPeer_leaves_old_address:
  "run (heap0, CreatePeerTable) [OpAddPeer 0, OpAddPeer 2]
     = Inr (replaced heap0 0 2,
            \<lparr>peerMap = [''a'' \<mapsto> 2], peers = [2], addrMap = [10 \<mapsto> 0, 12 \<mapsto> 2]\<rparr>)"
  by (simp add: AddPeer_def CreatePeerTable_def replaced_def heap0_simps)

lemma old_address_inconsistent:
  "\<not> views_consistent (replaced heap0 0 2)
       \<lparr>peerMap = [''a'' \<mapsto> 2], peers = [2], addrMap = [10 \<mapsto> 0, 12 \<mapsto> 2]\<rparr>"
proof -
  have "[10 \<mapsto> 0, 12 \<mapsto> 2] (10 :: addr_ref) = Some (0 :: peer_ref)" by simp
  then have "0 \<in> ran [10 :: addr_ref \<mapsto> 0 :: peer_ref, 12 \<mapsto> 2]"
    by (rule ranI)
  then show ?thesis
    by (auto simp: views_consistent_def)
qed

text \<open>\<open>DeletePeer\<close> on the consistent table \<open>table_ab\<close> removes the peer from all three views.\<close>

lemma DeletePeer_ab:
  "DeletePeer heap0 table_ab ''a''
     = Inr \<lparr>peerMap = [''a'' \<mapsto> 0, ''b'' \<mapsto> 1](''a'' := None), peers = [1],
            addrMap = [10 \<mapsto> 0, 11 \<mapsto> 1](10 := None)\<rparr>"
  by (simp add: DeletePeer_def table_ab_def deleteLoop.simps heap0_simps)

text \<open>
  Once \<open>PurgeOldestPeer\<close> has removed an identity from the identity map only, the
  same peer can be added a second time, and \<open>DeletePeer\<close> then meets a second match in
  the stale last slot of the backing array after \<open>pt.peers\<close> has shrunk: the slice
  expression \<open>pt.peers[idx+1:]\<close> panics.
\<close>

lemma DeletePeer_duplicate_panics:
  "run (heap0, CreatePeerTable)
     [OpAddPeer 0, OpAddPeer 1, OpPurgeOldestPeer, OpAddPeer 1, OpDeletePeer ''b'']
   = Inl SliceBoundsOutOfRange"
  by (simp add: AddPeer_def PurgeOldestPeer_def DeletePeer_def CreatePeerTable_def
      deleteLoop.simps heap0_simps)

subsection \<open>GetSelection\<close>

lemma go_int_id: "0 \<le> x \<Longrightarrow> x < 2 ^ 63 \<Longrightarrow> go_int x = x"
  by (simp add: go_int_def)

lemma go_quot_nonneg: "0 \<le> a \<Longrightarrow> 0 < b \<Longrightarrow> go_quot a b = a div b"
  by (cases "a = 0") (simp_all add: go_quot_def)

lemma MaxInt_max: "MaxInt a b = max a b"
  by (simp add: MaxInt_def max_def)

lemma MinInt_min: "MinInt a b = min a b"
  by (simp add: MinInt_def min_def)

lemma numSelection_formula:
  assumes "23 * int n < 2 ^ 63"
  shows "numSelection n = min 250 (max (min 32 (int n)) (int n * 23 div 100))"
proof -
  have "go_int (int n * 23) = int n * 23"
    using assms by (intro go_int_id) simp_all
  then show ?thesis
    by (simp add: numSelection_def MinInt_min MaxInt_max getSelectionPercent_def
        minGetSelection_def maxGetSelection_def go_quot_nonneg)
qed

lemma numSelection_bounds:
  assumes "0 < n"
  shows "1 \<le> numSelection n \<and> numSelection n \<le> int n \<and> numSelection n \<le> 250"
proof (cases "n < 250")
  case True
  then have "23 * int n < 2 ^ 63" by simp
  from numSelection_formula [OF this] assms show ?thesis
    by (auto simp: min_def max_def)
next
  case False
  define X where "X = go_quot (go_int (int n * 23)) 100"
  have ns: "numSelection n = min 250 (max (min 32 (int n)) X)"
    by (simp add: numSelection_def MinInt_min MaxInt_max getSelectionPercent_def
        minGetSelection_def maxGetSelection_def X_def)
  from False have "250 \<le> int n" by simp
  then show ?thesis
    unfolding ns by (simp add: min_def max_def)
qed

lemma shuffle_total:
  "numPeers \<le> int (length ps) \<Longrightarrow>
   \<exists>ps'. shuffle rnd i numPeers ps = Inr ps' \<and> length ps' = length ps \<and> mset ps' = mset ps"
proof (induction rnd i numPeers ps rule: shuffle.induct)
  case (1 rnd i numPeers ps)
  show ?case
  proof (cases "int i < numPeers")
    case False
    then show ?thesis by (subst shuffle.simps) simp
  next
    case True
    with "1.prems" have i: "i < length ps" by simp
    define j where "j = rnd i mod (length ps - i) + i"
    have "rnd i mod (length ps - i) < length ps - i"
      using i by simp
    then have j: "j < length ps"
      unfolding j_def by linarith
    from "1.IH" [OF True _ j_def] i j "1.prems"
    obtain ps' where "shuffle rnd (Suc i) numPeers (ps[i := ps ! j, j := ps ! i]) = Inr ps'"
      "length ps' = length ps" "mset ps' = mset (ps[i := ps ! j, j := ps ! i])"
      by auto
    moreover have "mset (ps[i := ps ! j, j := ps ! i]) = mset ps"
      using i j by (simp add: mset_swap)
    ultimately show ?thesis
      using True i j by (subst shuffle.simps) (simp add: j_def [symmetric] Let_def)
  qed
qed

lemma shuffle_map:
  "shuffle rnd i numPeers (map f xs) = (case shuffle rnd i numPeers xs of Inl e \<Rightarrow> Inl e | Inr ys \<Rightarrow> Inr (map f ys))"
proof (induction rnd i numPeers xs rule: shuffle.induct)
  case (1 rnd i numPeers ps)
  show ?case
  proof (cases "int i < numPeers \<and> \<not> int (length ps) - int i \<le> 0 \<and>
      rnd i mod (length ps - i) + i < length ps")
    case False
    then show ?thesis
      by (subst shuffle.simps, subst (2) shuffle.simps) (auto simp: Let_def)
  next
    case True
    define j where "j = rnd i mod (length ps - i) + i"
    from True have i: "i < length ps" and j: "j < length ps" by (simp_all add: j_def)
    have sw: "(map f ps)[i := map f ps ! j, j := map f ps ! i] = map f (ps[i := ps ! j, j := ps ! i])"
      using i j by (simp add: map_update)
    from "1.IH" [OF _ _ j_def] True i j
    have "shuffle rnd (Suc i) numPeers (map f (ps[i := ps ! j, j := ps ! i])) =
          (case shuffle rnd (Suc i) numPeers (ps[i := ps ! j, j := ps ! i]) of
             Inl e \<Rightarrow> Inl e | Inr ys \<Rightarrow> Inr (map f ys))"
      by simp
    then show ?thesis
      using True i j sw
      by (subst shuffle.simps, subst (2) shuffle.simps) (simp add: j_def [symmetric] Let_def)
  qed
qed


lemma shuffle_indices:
  assumes "numPeers \<le> int (length ps)"
  shows "\<exists>idxs. shuffle rnd 0 numPeers ps = Inr (map ((!) ps) idxs)
           \<and> distinct idxs \<and> set idxs = {..<length ps} \<and> length idxs = length ps"
proof -
  from assms have "numPeers \<le> int (length [0..<length ps])" by simp
  from shuffle_total [OF this, of rnd 0]
  obtain idxs where s: "shuffle rnd 0 numPeers [0..<length ps] = Inr idxs"
    and l: "length idxs = length ps" and m: "mset idxs = mset [0..<length ps]"
    by auto
  from m have "distinct idxs" "set idxs = {..<length ps}"
    by (metis distinct_upt mset_eq_imp_distinct_iff, metis atLeast_upt mset_eq_setD)
  moreover have "shuffle rnd 0 numPeers ps = Inr (map ((!) ps) idxs)"
    using shuffle_map [of rnd 0 numPeers "(!) ps" "[0..<length ps]"] s
    by (simp add: map_nth)
  ultimately show ?thesis using l by blast
qed

lemma GetSelection_result:
  assumes "peers pt \<noteq> []"
  shows "\<exists>idxs. GetSelection rnd h pt = Inr (pt, Some (map (\<lambda>i. pairOf h (peers pt ! i)) idxs))
           \<and> distinct idxs \<and> (\<forall>i \<in> set idxs. i < length (peers pt))
           \<and> int (length idxs) = numSelection (length (peers pt))"
proof -
  let ?n = "length (peers pt)"
  let ?k = "numSelection ?n"
  from assms have n: "0 < ?n" by simp
  from numSelection_bounds [OF n] have k: "1 \<le> ?k" "?k \<le> int ?n" by simp_all
  from shuffle_indices [OF k(2), of rnd]
  obtain idxs where s: "shuffle rnd 0 ?k (peers pt) = Inr (map ((!) (peers pt)) idxs)"
    and d: "distinct idxs" and r: "set idxs = {..<?n}" and l: "length idxs = ?n"
    by blast
  let ?sel = "take (nat ?k) idxs"
  have len: "int (length ?sel) = ?k" using k l by simp
  then have ne: "?sel \<noteq> []" using k by auto
  have "GetSelection rnd h pt = Inr (pt, Some (map (\<lambda>i. pairOf h (peers pt ! i)) ?sel))"
    using assms k l ne
    by (simp add: GetSelection_def Let_def s take_map pairOf_def comp_def)
  moreover have "distinct ?sel" using d by simp
  moreover have "\<forall>i \<in> set ?sel. i < ?n" using r by (auto dest: in_set_takeD)
  ultimately show ?thesis using len by blast
qed

lemma shuffle_ab: "shuffle (\<lambda>i. 7 * i + 3) 0 2 [0, Suc 0] = Inr [Suc 0, 0]"
  by code_simp

lemma numSelection_2: "numSelection (Suc (Suc 0)) = 2"
  by code_simp

lemma GetSelection_ab:
  "GetSelection (\<lambda>i. 7 * i + 3) heap0 table_ab
        = Inr (table_ab, Some [\<lparr>pia_ID = ''b'', pia_Addr = 11\<rparr>, \<lparr>pia_ID = ''a'', pia_Addr = 10\<rparr>])"
  by (simp add: GetSelection_def Let_def numSelection_2 shuffle_ab table_ab_def heap0_simps)

text \<open>
  C4. \<open>GetSelection\<close> returns nil for the empty table. For a table of \<open>n > 0\<close> peers
  it returns exactly \<open>min(250, max(min(32, n), n * 23 div 100))\<close> pairs, whatever the
  random draws are, and never panics. The product \<open>n * 23\<close> is computed in Go's
  \<open>int\<close>; the hypothesis \<open>23 * n < 2 ^ 63\<close> says that it does not wrap, which holds
  for every slice a 64-bit process can hold.
\<close>

theorem C4_GetSelection_size:
  "(peers pt = [] \<longrightarrow> GetSelection rnd h pt = Inr (pt, None))
   \<and> (peers pt \<noteq> [] \<and> 23 * int (length (peers pt)) < 2 ^ 63 \<longrightarrow>
        (\<exists>sel. GetSelection rnd h pt = Inr (pt, Some sel)
           \<and> int (length sel) =
               min 250 (max (min 32 (int (length (peers pt))))
                            (int (length (peers pt)) * 23 div 100))))"
proof (intro conjI impI)
  assume "peers pt = []"
  then show "GetSelection rnd h pt = Inr (pt, None)"
    by (simp add: GetSelection_def)
next
  assume a: "peers pt \<noteq> [] \<and> 23 * int (length (peers pt)) < 2 ^ 63"
  then obtain idxs where
    "GetSelection rnd h pt = Inr (pt, Some (map (\<lambda>i. pairOf h (peers pt ! i)) idxs))"
    "int (length idxs) = numSelection (length (peers pt))"
    using GetSelection_result [of pt rnd h] by blast
  with a numSelection_formula [of "length (peers pt)"]
  show "\<exists>sel. GetSelection rnd h pt = Inr (pt, Some sel)
           \<and> int (length sel) =
               min 250 (max (min 32 (int (length (peers pt))))
                            (int (length (peers pt)) * 23 div 100))"
    by auto
qed

text \<open>
  The empty table, the table \<open>table_ab\<close> evaluated under fixed draws, a table of 10
  peers (all 10 are returned) and a table of 1000 peers (230 are returned).
\<close>

theorem C4_GetSelection_size_witness:
  "GetSelection (\<lambda>i. 7 * i + 3) heap0 CreatePeerTable = Inr (CreatePeerTable, None)
   \<and> peers table_ab \<noteq> [] \<and> 23 * int (length (peers table_ab)) < 2 ^ 63
   \<and> GetSelection (\<lambda>i. 7 * i + 3) heap0 table_ab
        = Inr (table_ab, Some [\<lparr>pia_ID = ''b'', pia_Addr = 11\<rparr>, \<lparr>pia_ID = ''a'', pia_Addr = 10\<rparr>])
   \<and> (\<exists>sel. GetSelection (\<lambda>i. 7 * i + 3) heap0 (table_upto 10)
                  = Inr (table_upto 10, Some sel)
          \<and> length sel = 10)
   \<and> (\<exists>sel. GetSelection (\<lambda>i. 7 * i + 3) heap0 (table_upto 1000)
                  = Inr (table_upto 1000, Some sel)
          \<and> length sel = 230)"
  using C4_GetSelection_size [of CreatePeerTable "\<lambda>i. 7 * i + 3" heap0]
    C4_GetSelection_size [of "table_upto 10" "\<lambda>i. 7 * i + 3" heap0]
    C4_GetSelection_size [of "table_upto 1000" "\<lambda>i. 7 * i + 3" heap0] GetSelection_ab
  by (simp add: CreatePeerTable_def table_upto_def table_ab_def)

text \<open>
  C10. For a non-empty table of \<open>n\<close> peers the selection size is at most \<open>n\<close>, and
  \<open>GetSelection\<close> returns without a panic: no call of \<open>rand.Intn\<close> gets a
  non-positive bound, no index of the shuffle and not the final slice expression is out
  of range. The pairs returned are those of the peers at pairwise distinct positions
  \<open>idxs\<close> of the table's sequence, and the table is returned unchanged.
\<close>

theorem C10_GetSelection_in_bounds:
  "peers pt \<noteq> [] \<Longrightarrow>
   numSelection (length (peers pt)) \<le> int (length (peers pt))
   \<and> (\<exists>idxs. GetSelection rnd h pt =
                 Inr (pt, Some (map (\<lambda>i. pairOf h (peers pt ! i)) idxs))
         \<and> distinct idxs \<and> (\<forall>i \<in> set idxs. i < length (peers pt))
         \<and> int (length idxs) = numSelection (length (peers pt)))"
  using GetSelection_result [of pt rnd h] numSelection_bounds [of "length (peers pt)"]
  by simp

theorem C10_GetSelection_in_bounds_witness:
  "peers table_ab \<noteq> []
   \<and> numSelection (length (peers table_ab)) \<le> int (length (peers table_ab))
   \<and> GetSelection (\<lambda>i. 7 * i + 3) heap0 table_ab =
        Inr (table_ab, Some (map (\<lambda>i. pairOf heap0 (peers table_ab ! i)) [1, 0]))"
proof -
  have "map (\<lambda>i. pairOf heap0 (peers table_ab ! i)) [1, 0]
          = [\<lparr>pia_ID = ''b'', pia_Addr = 11\<rparr>, \<lparr>pia_ID = ''a'', pia_Addr = 10\<rparr>]"
    by (simp add: table_ab_def pairOf_def heap0_simps)
  moreover have "peers table_ab \<noteq> []"
    by (simp add: table_ab_def)
  ultimately show ?thesis
    using C10_GetSelection_in_bounds [of table_ab "\<lambda>i. 7 * i + 3" heap0] GetSelection_ab by simp
qed

section \<open>Properties of the sync manager\<close>

subsection \<open>Hexadecimal strings\<close>

lemma fromHexChar_hextable_all:
  "list_all (\<lambda>n. fromHexChar (hextable ! n) = Some (of_nat n)) [0..<16]"
  by code_simp

lemma fromHexChar_hextable: "n < 16 \<Longrightarrow> fromHexChar (hextable ! n) = Some (of_nat n)"
  using fromHexChar_hextable_all by (simp add: list_all_iff)

lemma nibbles: "push_bit 4 (drop_bit 4 v) OR (v AND 15) = (v :: byte)"
proof -
  have m: "(15 :: byte) = mask 4" by (simp add: mask_eq_exp_minus_1)
  show ?thesis unfolding m by (rule bit_eqI) (auto simp: bit_simps)
qed

lemma high_nibble_bound: "unat (drop_bit 4 (v :: byte)) < 16"
proof -
  have "unat (drop_bit 4 v) = unat v div 16"
    by (simp add: drop_bit_eq_div unat_div)
  moreover have "unat v < 256" using unsigned_less [of v] by simp
  ultimately show ?thesis by simp
qed

lemma low_nibble_bound: "unat ((v :: byte) AND 15) < 16"
proof -
  have "v AND 15 \<le> 15" by (rule word_and_le1)
  then have "unat (v AND 15) \<le> unat (15 :: byte)" by (simp only: word_le_nat_alt)
  then show ?thesis by simp
qed

lemma DecodeString_encodeByte:
  "DecodeString (encodeByte v @ rest) = map_option ((#) v) (DecodeString rest)"
  by (cases "DecodeString rest")
     (simp_all add: encodeByte_def fromHexChar_hextable high_nibble_bound low_nibble_bound nibbles)

lemma DecodeString_EncodeToString: "DecodeString (EncodeToString bs) = Some bs"
  by (induction bs) (simp_all add: EncodeToString_def DecodeString_encodeByte)

subsection \<open>Data requests\<close>

lemma dataRequestLoop_all:
  "\<forall>s \<in> set xs. \<exists>r. serveHash env s = Inr r \<Longrightarrow>
   dataRequestLoop env pid xs = map (\<lambda>s. SendData [pid] (projr (serveHash env s))) xs"
  by (induction xs) auto

lemma dataRequestLoop_first_failure:
  "\<forall>s \<in> set xs. \<exists>r. serveHash env s = Inr r \<Longrightarrow> serveHash env bad = Inl err \<Longrightarrow>
   dataRequestLoop env pid (xs @ bad # ys)
     = map (\<lambda>s. SendData [pid] (projr (serveHash env s))) xs @ [LogError err]"
  by (induction xs) auto

lemma serveHash_fails_iff:
  "(\<exists>err. serveHash env s = Inl err) \<longleftrightarrow>
     (DecodeString s = None
      \<or> (\<exists>h. DecodeString s = Some h
            \<and> (FindBlock env h = None
                \<or> (\<exists>b. FindBlock env h = Some b \<and> rlpEncodeBlock env (eb_Block b) = None))))"
  by (auto simp: serveHash_def split: option.splits)

text \<open>
  C5, as amended. A data request on the block channel is served hash by hash, in order,
  up to the first hash that fails to decode, is not found locally or fails to encode.
  When no hash fails, every hash gets its own data response. Otherwise the hashes
  before the first failing one get their data responses, the failing hash is logged and
  gets none, and the handler returns: no later hash of the request is looked up or
  served.
\<close>

theorem C5_data_request_serves_up_to_first_failure:
  "(dreq_ChannelID data = ChannelIDBlock
      \<and> (\<forall>s \<in> set (dreq_Entries data). \<exists>r. serveHash env s = Inr r) \<longrightarrow>
    handleDataRequest env pid data
      = map (\<lambda>s. SendData [pid] (projr (serveHash env s))) (dreq_Entries data))
   \<and> (dreq_ChannelID data = ChannelIDBlock
      \<and> dreq_Entries data = xs @ bad # ys
      \<and> (\<forall>s \<in> set xs. \<exists>r. serveHash env s = Inr r)
      \<and> serveHash env bad = Inl err \<longrightarrow>
    handleDataRequest env pid data
      = map (\<lambda>s. SendData [pid] (projr (serveHash env s))) xs @ [LogError err])
   \<and> ((\<exists>e. serveHash env s = Inl e) \<longleftrightarrow>
        (DecodeString s = None
         \<or> (\<exists>h. DecodeString s = Some h
               \<and> (FindBlock env h = None
                   \<or> (\<exists>b. FindBlock env h = Some b
                          \<and> rlpEncodeBlock env (eb_Block b) = None)))))"
  using dataRequestLoop_all [of "dreq_Entries data" env pid]
    dataRequestLoop_first_failure [of xs env bad err pid ys]
    serveHash_fails_iff [of env s]
  by (simp add: handleDataRequest_def)

lemma serve_01: "serveHash (envChain3 50) ''01'' = Inr \<lparr>dresp_ChannelID = ChannelIDBlock, dresp_Payload = [1]\<rparr>"
  by code_simp

lemma serve_02: "serveHash (envChain3 50) ''02'' = Inr \<lparr>dresp_ChannelID = ChannelIDBlock, dresp_Payload = [2]\<rparr>"
  by code_simp

lemma serve_04: "serveHash (envChain3 50) ''04'' = Inl ''Failed to find hash string locally''"
  by code_simp

theorem C5_data_request_witness:
  "handleDataRequest (envChain3 50) ''p''
      \<lparr>dreq_ChannelID = ChannelIDBlock, dreq_Entries = [''01'', ''02'']\<rparr>
     = [SendData [''p''] \<lparr>dresp_ChannelID = ChannelIDBlock, dresp_Payload = [1]\<rparr>,
        SendData [''p''] \<lparr>dresp_ChannelID = ChannelIDBlock, dresp_Payload = [2]\<rparr>]
   \<and> handleDataRequest (envChain3 50) ''p''
      \<lparr>dreq_ChannelID = ChannelIDBlock, dreq_Entries = [''01'', ''04'', ''02'']\<rparr>
     = [SendData [''p''] \<lparr>dresp_ChannelID = ChannelIDBlock, dresp_Payload = [1]\<rparr>,
        LogError ''Failed to find hash string locally'']
   \<and> DecodeString ''04'' = Some [4] \<and> FindBlock (envChain3 50) [4] = None"
proof -
  have "DecodeString ''04'' = Some [4]" by code_simp
  moreover have "FindBlock (envChain3 50) [4] = None" by code_simp
  ultimately show ?thesis
  using C5_data_request_serves_up_to_first_failure [of "\<lparr>dreq_ChannelID = ChannelIDBlock, dreq_Entries = [''01'', ''02'']\<rparr>"
        "envChain3 50" "''p''" "[]" "''''" "[]" "''''" "''04''"]
    C5_data_request_serves_up_to_first_failure [of "\<lparr>dreq_ChannelID = ChannelIDBlock, dreq_Entries = [''01'', ''04'', ''02'']\<rparr>"
        "envChain3 50" "''p''" "[''01'']" "''04''" "[''02'']" "''Failed to find hash string locally''" "''04''"]
  by (simp add: serve_01 serve_02 serve_04)
qed

text \<open>
  C5 as stated fails: the hash \<open>01\<close> is served when it is asked for alone, and is
  not served when it follows a hash that is unknown locally or does not decode.
\<close>

theorem C5_later_hashes_not_served:
  "handleDataRequest (envChain3 50) ''p''
      \<lparr>dreq_ChannelID = ChannelIDBlock, dreq_Entries = [''04'', ''01'']\<rparr>
     = [LogError ''Failed to find hash string locally'']
   \<and> handleDataRequest (envChain3 50) ''p''
      \<lparr>dreq_ChannelID = ChannelIDBlock, dreq_Entries = [''zz'', ''01'']\<rparr>
     = [LogError ''Failed to parse hash string in DataRequest'']
   \<and> handleDataRequest (envChain3 50) ''p''
      \<lparr>dreq_ChannelID = ChannelIDBlock, dreq_Entries = [''01'']\<rparr>
     = [SendData [''p''] \<lparr>dresp_ChannelID = ChannelIDBlock, dresp_Payload = [1]\<rparr>]"
  by code_simp

subsection \<open>Inventory requests\<close>

lemma invWalk_length_le:
  "invWalk env k cur end blocks = Inr bs \<Longrightarrow> length bs \<le> length blocks + k + 1"
proof (induction k arbitrary: cur blocks)
  case 0
  then show ?case by simp
next
  case (Suc k)
  then show ?case
    by (fastforce simp: Let_def split: option.splits list.splits if_splits)
qed

lemma handleInvRequest_length_le:
  "SendInventory ps resp \<in> set (handleInvRequest env pid req) \<Longrightarrow>
   length (iresp_Entries resp) \<le> MaxInventorySize env + 1"
  by (auto simp: handleInvRequest_def split: ChannelIDEnum.splits if_splits option.splits
      sum.splits dest: invWalk_length_le)

lemma invWalk_zeros_step:
  "invWalk (envZeros m) (Suc k) (replicate n 0) e blocks =
     (if replicate (Suc n) 0 = e
      then Inr (blocks @ [EncodeToString (replicate n 0), EncodeToString e])
      else invWalk (envZeros m) k (replicate (Suc n) 0) e
             (blocks @ [EncodeToString (replicate n 0)]))"
  by (simp add: envZeros_def chainZeros_def replicate_append_same)

lemma replicate_neq: "i \<noteq> j \<Longrightarrow> replicate i (x :: byte) \<noteq> replicate j x"
proof
  assume "i \<noteq> j" and "replicate i x = replicate j x"
  then have "length (replicate i x) = length (replicate j x)" by simp
  with \<open>i \<noteq> j\<close> show False by simp
qed

lemma invWalk_zeros:
  "\<exists>bs. invWalk (envZeros m) (Suc k) (replicate n 0) (replicate (n + Suc k) 0) blocks = Inr bs
        \<and> length bs = length blocks + Suc k + 1"
proof (induction k arbitrary: n blocks)
  case 0
  show ?case
    by (subst invWalk_zeros_step) simp
next
  case (Suc k)
  have ne: "replicate (Suc n) (0 :: byte) \<noteq> replicate (n + Suc (Suc k)) 0"
    by (rule replicate_neq) simp
  from Suc [of "Suc n" "blocks @ [EncodeToString (replicate n 0)]"]
  obtain bs where
    "invWalk (envZeros m) (Suc k) (replicate (Suc n) 0) (replicate (n + Suc (Suc k)) 0)
       (blocks @ [EncodeToString (replicate n 0)]) = Inr bs"
    "length bs = length blocks + Suc (Suc k) + 1"
    by auto
  then show ?case
    by (subst invWalk_zeros_step) (simp only: ne if_False, simp)
qed

text \<open>
  C6. The response can hold one entry more than \<open>dispatcher.MaxInventorySize\<close>: when
  the end hash is the child found in the last iteration the loop may make, the end hash
  is appended to the \<open>MaxInventorySize\<close> hashes already collected. For every value
  \<open>Suc m\<close> of the constant, the request \<open>reqZeros (Suc m)\<close> on the chain
  \<open>chainZeros\<close> is answered with \<open>Suc m + 1\<close> entries. (\<open>handleInvRequest_length_le\<close>
  above is the bound the code does keep.)
\<close>

theorem C6_response_exceeds_MaxInventorySize:
  "MaxInventorySize (envZeros (Suc m)) = Suc m
   \<and> (\<exists>entries.
         handleInvRequest (envZeros (Suc m)) ''p'' (reqZeros (Suc m))
           = [SendInventory [''p'']
                \<lparr>iresp_ChannelID = ChannelIDBlock, iresp_Entries = entries\<rparr>]
         \<and> length entries = Suc m + 1)"
proof -
  have s: "ireq_Start (reqZeros (Suc m)) \<noteq> []"
    by (simp add: reqZeros_def EncodeToString_def encodeByte_def)
  from invWalk_zeros [of "Suc m" m 1 "[]"]
  obtain bs where "invWalk (envZeros (Suc m)) (Suc m) [0] (replicate (Suc (Suc m)) 0) [] = Inr bs"
    "length bs = Suc m + 1"
    by auto
  then show ?thesis
    using s by (simp add: handleInvRequest_def reqZeros_def DecodeString_EncodeToString envZeros_def)
qed

text \<open>The same with \<open>MaxInventorySize = 2\<close> on the chain of three blocks.\<close>

lemma inventory_of_three_with_max_two:
  "handleInvRequest (envChain3 2) ''p''
      \<lparr>ireq_ChannelID = ChannelIDBlock, ireq_Start = ''01'', ireq_End = ''03''\<rparr>
     = [SendInventory [''p'']
          \<lparr>iresp_ChannelID = ChannelIDBlock, iresp_Entries = [''01'', ''02'', ''03'']\<rparr>]"
  by code_simp

text \<open>
  The walk reads the end hash only when it moves to a child. A start block without
  children is answered with the start hash alone, whatever the end hash is.
\<close>

lemma inventory_single_entry_without_children:
  "ireq_ChannelID req = ChannelIDBlock \<Longrightarrow> ireq_Start req \<noteq> [] \<Longrightarrow>
   DecodeString (ireq_Start req) = Some h \<Longrightarrow> DecodeString (ireq_End req) = Some e \<Longrightarrow>
   FindBlock env h = Some b \<Longrightarrow> Children b = [] \<Longrightarrow> 0 < MaxInventorySize env \<Longrightarrow>
   handleInvRequest env pid req
     = [SendInventory [pid]
          \<lparr>iresp_ChannelID = ChannelIDBlock, iresp_Entries = [EncodeToString h]\<rparr>]"
  by (auto simp: handleInvRequest_def gr0_conv_Suc)

text \<open>
  A start block with a child, asked for with the start hash as the end hash, is never
  answered with the start hash alone once the loop may run twice: the response, when
  one is sent, has at least two entries.
\<close>

lemma invWalk_length_ge:
  "invWalk env k cur end blocks = Inr bs \<Longrightarrow> length blocks \<le> length bs"
proof (induction k arbitrary: cur blocks)
  case 0
  then show ?case by simp
next
  case (Suc k)
  then show ?case
    by (fastforce simp: Let_def split: option.splits list.splits if_splits)
qed

lemma invWalk_Suc_length_ge:
  "invWalk env (Suc k) cur end blocks = Inr bs \<Longrightarrow> length blocks + 1 \<le> length bs"
  by (fastforce simp: Let_def split: option.splits list.splits if_splits
      dest: invWalk_length_ge)

lemma inventory_never_single_with_child:
  assumes "ireq_ChannelID req = ChannelIDBlock" and "ireq_Start req \<noteq> []"
    and "DecodeString (ireq_Start req) = Some h" and "DecodeString (ireq_End req) = Some h"
    and "FindBlock env h = Some b" and "Children b = c # cs"
    and "2 \<le> MaxInventorySize env"
    and "SendInventory ps resp \<in> set (handleInvRequest env pid req)"
  shows "2 \<le> length (iresp_Entries resp)"
proof -
  from assms(7) obtain k where k: "MaxInventorySize env = Suc (Suc k)"
    by (metis Suc_le_D numeral_2_eq_2 Suc_le_mono)
  have w: "invWalk env (Suc (Suc k)) h h [] =
             (if c = h then Inr [EncodeToString h, EncodeToString h]
              else invWalk env (Suc k) c h [EncodeToString h])"
    using assms(5,6) by simp
  have hd: "handleInvRequest env pid req =
      (case invWalk env (Suc (Suc k)) h h [] of
         Inl err \<Rightarrow> [LogError err]
       | Inr blocks \<Rightarrow>
           [SendInventory [pid]
              \<lparr>iresp_ChannelID = ChannelIDBlock, iresp_Entries = blocks\<rparr>])"
    using assms(1-4) k by (simp add: handleInvRequest_def del: invWalk.simps)
  show ?thesis
  proof (cases "invWalk env (Suc (Suc k)) h h []")
    case (Inl err)
    with hd assms(8) show ?thesis by simp
  next
    case (Inr bs)
    with hd assms(8) have e: "iresp_Entries resp = bs" by auto
    show ?thesis
    proof (cases "c = h")
      case True
      with w Inr e show ?thesis by auto
    next
      case False
      with w Inr have "invWalk env (Suc k) c h [EncodeToString h] = Inr bs"
        by (simp del: invWalk.simps)
      from invWalk_Suc_length_ge [OF this] e show ?thesis by simp
    qed
  qed
qed

text \<open>
  C7. A request whose start hash equals its end hash is not answered with that single
  hash when the start block has children. The walk stops at the end hash only when the
  end hash is the child it has just moved to; it never compares the start hash with
  the end hash. On the chain \<open>01\<close>, \<open>02\<close>, \<open>03\<close> the request with start and end
  \<open>01\<close> is answered with all three hashes.
\<close>

theorem C7_start_with_children:
  "DecodeString ''01'' = Some [1] \<and> FindBlock (envChain3 50) [1] = Some (blk [1] [[2]])
   \<and> handleInvRequest (envChain3 50) ''p''
        \<lparr>ireq_ChannelID = ChannelIDBlock, ireq_Start = ''01'', ireq_End = ''01''\<rparr>
       = [SendInventory [''p'']
            \<lparr>iresp_ChannelID = ChannelIDBlock, iresp_Entries = [''01'', ''02'', ''03'']\<rparr>]"
proof -
  have "DecodeString ''01'' = Some [1]" by code_simp
  moreover have "FindBlock (envChain3 50) [1] = Some (blk [1] [[2]])"
    by (simp add: envChain3_def chain3_def)
  moreover have "handleInvRequest (envChain3 50) ''p''
        \<lparr>ireq_ChannelID = ChannelIDBlock, ireq_Start = ''01'', ireq_End = ''01''\<rparr>
       = [SendInventory [''p'']
            \<lparr>iresp_ChannelID = ChannelIDBlock, iresp_Entries = [''01'', ''02'', ''03'']\<rparr>]"
    by code_simp
  ultimately show ?thesis by simp
qed

subsection \<open>Votes\<close>

text \<open>
  C8. \<open>handleVote\<close> forwards the vote to the consumer in every case, once and last.
  When the vote has no block, that is all it does; when the vote references a block, it
  first registers the block's hash with the request manager with an empty list of
  peers. The handler does not consult the chain: a vote that arrives in a data response
  on the vote channel is handled like this whatever the chain knows.
\<close>

theorem C8_handleVote:
  "(vote_Block vote = None \<longrightarrow> handleVote vote = [AddMessage (SinkVote vote)])
   \<and> (\<forall>b. vote_Block vote = Some b \<longrightarrow>
         handleVote vote = [AddHash (Hash b) [], AddMessage (SinkVote vote)])
   \<and> (msg_Content message = DataResp data \<and> dresp_ChannelID data = ChannelIDVote
        \<and> rlpDecodeVote env (dresp_Payload data) = Some vote \<longrightarrow>
       processMessage env message = (handleVote vote, None))"
  by (simp add: handleVote_def processMessage_def handleDataResponse_def)

theorem C8_handleVote_witness:
  "vote_Block (mkVote []) = None
   \<and> handleVote (mkVote []) = [AddMessage (SinkVote (mkVote []))]
   \<and> vote_Block (mkVote [9]) = Some (mkBlock [9])
   \<and> handleVote (mkVote [9]) = [AddHash [9] [], AddMessage (SinkVote (mkVote [9]))]
   \<and> FindBlock (envChain3 50) [9] = None
   \<and> rlpDecodeVote (envChain3 50) [9] = Some (mkVote [9])
   \<and> processMessage (envChain3 50)
        \<lparr>msg_PeerID = ''p'', msg_ChannelID = ChannelIDVote,
         msg_Content = DataResp \<lparr>dresp_ChannelID = ChannelIDVote, dresp_Payload = [9]\<rparr>\<rparr>
       = ([AddHash [9] [], AddMessage (SinkVote (mkVote [9]))], None)"
  using C8_handleVote [of "mkVote []"] C8_handleVote [of "mkVote [9]"
      "\<lparr>msg_PeerID = ''p'', msg_ChannelID = ChannelIDVote,
         msg_Content = DataResp \<lparr>dresp_ChannelID = ChannelIDVote, dresp_Payload = [9]\<rparr>\<rparr>"
      "\<lparr>dresp_ChannelID = ChannelIDVote, dresp_Payload = [9]\<rparr>" "envChain3 50"]
  by (simp add: mkVote_def mkBlock_def envChain3_def chain3_def)

subsection \<open>Dispatch\<close>

lemma handleDataResponse_panic:
  "snd (handleDataResponse env pid data) = None
   \<or> snd (handleDataResponse env pid data) = Some NilDereference"
  by (auto simp: handleDataResponse_def handleProposal_def handleBlock_def Let_def
      split: ChannelIDEnum.splits option.splits prod.splits)

text \<open>
  C9. \<open>processMessage\<close> ends in the panic of its default branch exactly when the
  content is none of the four shapes. For a content of one of the four shapes it
  is the shape's handler that runs; the handlers of inventory requests, inventory
  responses and data requests return, and the handler of data responses returns or ends
  in the nil dereference of \<open>handleBlock\<close> (a proposal without a block), never in the
  panic of the default branch.
\<close>

theorem C9_processMessage_dispatch:
  "(snd (processMessage env message) = Some UnknownMessage
      \<longleftrightarrow> (\<exists>d. msg_Content message = OtherContent d))
   \<and> (\<forall>c. msg_Content message = InvReq c \<longrightarrow>
         processMessage env message = (handleInvRequest env (msg_PeerID message) c, None))
   \<and> (\<forall>c. msg_Content message = InvResp c \<longrightarrow>
         processMessage env message = (handleInvResponse (msg_PeerID message) c, None))
   \<and> (\<forall>c. msg_Content message = DataReq c \<longrightarrow>
         processMessage env message = (handleDataRequest env (msg_PeerID message) c, None))
   \<and> (\<forall>c. msg_Content message = DataResp c \<longrightarrow>
         processMessage env message = handleDataResponse env (msg_PeerID message) c)"
proof (cases "msg_Content message")
  case (DataResp c)
  with handleDataResponse_panic [of env "msg_PeerID message" c] show ?thesis
    by (auto simp: processMessage_def)
qed (auto simp: processMessage_def)

text \<open>
  One message of every kind: a pointer to a data request (not one of the four value
  types), the four shapes, and a proposal without a block.
\<close>

theorem C9_processMessage_dispatch_witness:
  "snd (processMessage (envChain3 50) (msgOf (OtherContent ''*dispatcher.DataRequest'')))
     = Some UnknownMessage
   \<and> processMessage (envChain3 50)
       (msgOf (InvReq \<lparr>ireq_ChannelID = ChannelIDBlock, ireq_Start = ''02'', ireq_End = ''03''\<rparr>))
     = ([SendInventory [''p'']
          \<lparr>iresp_ChannelID = ChannelIDBlock, iresp_Entries = [''02'', ''03'']\<rparr>], None)
   \<and> processMessage (envChain3 50)
       (msgOf (InvResp \<lparr>iresp_ChannelID = ChannelIDBlock, iresp_Entries = [''02'', ''03'']\<rparr>))
     = ([AddHash [2] [''p''], AddHash [3] [''p'']], None)
   \<and> processMessage (envChain3 50)
       (msgOf (DataReq \<lparr>dreq_ChannelID = ChannelIDBlock, dreq_Entries = [''02'']\<rparr>))
     = ([SendData [''p''] \<lparr>dresp_ChannelID = ChannelIDBlock, dresp_Payload = [2]\<rparr>], None)
   \<and> processMessage (envChain3 50)
       (msgOf (DataResp \<lparr>dresp_ChannelID = ChannelIDBlock, dresp_Payload = [7]\<rparr>))
     = ([AddBlock (mkBlock [7])], None)
   \<and> processMessage (envChain3 50)
       (msgOf (DataResp \<lparr>dresp_ChannelID = ChannelIDProposal, dresp_Payload = [0]\<rparr>))
     = ([], Some NilDereference)"
proof -
  have "handleInvRequest (envChain3 50) ''p''
          \<lparr>ireq_ChannelID = ChannelIDBlock, ireq_Start = ''02'', ireq_End = ''03''\<rparr>
        = [SendInventory [''p'']
            \<lparr>iresp_ChannelID = ChannelIDBlock, iresp_Entries = [''02'', ''03'']\<rparr>]"
    by code_simp
  moreover have "handleInvResponse ''p''
          \<lparr>iresp_ChannelID = ChannelIDBlock, iresp_Entries = [''02'', ''03'']\<rparr>
        = [AddHash [2] [''p''], AddHash [3] [''p'']]"
    by code_simp
  moreover have "handleDataRequest (envChain3 50) ''p''
          \<lparr>dreq_ChannelID = ChannelIDBlock, dreq_Entries = [''02'']\<rparr>
        = [SendData [''p''] \<lparr>dresp_ChannelID = ChannelIDBlock, dresp_Payload = [2]\<rparr>]"
    by code_simp
  moreover have "handleDataResponse (envChain3 50) ''p''
          \<lparr>dresp_ChannelID = ChannelIDBlock, dresp_Payload = [7]\<rparr>
        = ([AddBlock (mkBlock [7])], None)"
    by (simp add: handleDataResponse_def handleBlock_def envChain3_def)
  moreover have "handleDataResponse (envChain3 50) ''p''
          \<lparr>dresp_ChannelID = ChannelIDProposal, dresp_Payload = [0]\<rparr>
        = ([], Some NilDereference)"
    by (simp add: handleDataResponse_def handleProposal_def handleBlock_def envChain3_def)
  ultimately show ?thesis
    using
      C9_processMessage_dispatch [of "envChain3 50" "msgOf (OtherContent ''*dispatcher.DataRequest'')"]
      C9_processMessage_dispatch [of "envChain3 50"
        "msgOf (InvReq \<lparr>ireq_ChannelID = ChannelIDBlock, ireq_Start = ''02'', ireq_End = ''03''\<rparr>)"]
      C9_processMessage_dispatch [of "envChain3 50"
        "msgOf (InvResp \<lparr>iresp_ChannelID = ChannelIDBlock, iresp_Entries = [''02'', ''03'']\<rparr>)"]
      C9_processMessage_dispatch [of "envChain3 50"
        "msgOf (DataReq \<lparr>dreq_ChannelID = ChannelIDBlock, dreq_Entries = [''02'']\<rparr>)"]
      C9_processMessage_dispatch [of "envChain3 50"
        "msgOf (DataResp \<lparr>dresp_ChannelID = ChannelIDBlock, dresp_Payload = [7]\<rparr>)"]
      C9_processMessage_dispatch [of "envChain3 50"
        "msgOf (DataResp \<lparr>dresp_ChannelID = ChannelIDProposal, dresp_Payload = [0]\<rparr>)"]
    by (simp add: msgOf_def)
qed

end
